theory Spec2Isabelle
  imports Main
begin

section \<open>Argument validators of the ARO command-line extension\<close>

text \<open>
  A shallow embedding of \<^verbatim>\<open>python/az/aro/azext_aro/_validators.py\<close>.
  Every validator receives the argument namespace and either returns normally or raises;
  a raise is the \<open>Inl\<close> branch of a sum. Validators that assign to the namespace return
  the namespace they leave behind, also when they raise.
\<close>

subsection \<open>Errors\<close>

text \<open>
  The exception classes the module raises, with their message. \<open>KeyError\<close>,
  \<open>AttributeError\<close> and \<open>TypeError\<close> are the interpreter's own, raised by a failed
  dictionary lookup, attribute access or string concatenation.
\<close>

datatype error =
    InvalidArgumentValueError string
  | RequiredArgumentMissingError string
  | MutuallyExclusiveArgumentError string
  | CLIInternalError string
  | KeyError string
  | AttributeError string
  | TypeError string

type_synonym result = "error + unit"

subsection \<open>Strings\<close>

text \<open>
  Python strings are modelled as \<open>string\<close>. A character outside ASCII is a sequence of
  bytes of 128 and above here, none of which is in a class of the patterns below.
\<close>

definition newline :: char where
  "newline = CHR 0x0A"

definition in_range :: "char \<Rightarrow> char \<Rightarrow> char \<Rightarrow> bool" where
  "in_range lo hi c = ((of_char lo :: nat) \<le> of_char c \<and> (of_char c :: nat) \<le> of_char hi)"

definition lower_char :: "char \<Rightarrow> char" where
  "lower_char c = (if in_range CHR ''A'' CHR ''Z'' c then char_of (of_char c + (32::nat)) else c)"

definition upper_char :: "char \<Rightarrow> char" where
  "upper_char c = (if in_range CHR ''a'' CHR ''z'' c then char_of (of_char c - (32::nat)) else c)"

definition is_ascii :: "string \<Rightarrow> bool" where
  "is_ascii s = list_all (\<lambda>c. (of_char c :: nat) < 128) s"

text \<open>
  Case conversion follows the interpreter's Unicode tables, which are not part of this
  module. On a string of ASCII characters it is the conversion of the letters A to Z and
  a to z; what \<^verbatim>\<open>str.lower()\<close> and \<^verbatim>\<open>str.capitalize()\<close> return for any other string is
  a parameter.
\<close>

record unicode =
  unicode_lower :: "string \<Rightarrow> string"
  unicode_capitalize :: "string \<Rightarrow> string"

text \<open>\<^verbatim>\<open>str.lower()\<close>\<close>

definition lower :: "unicode \<Rightarrow> string \<Rightarrow> string" where
  "lower u s = (if is_ascii s then map lower_char s else unicode_lower u s)"

text \<open>\<^verbatim>\<open>str.capitalize()\<close>: the first character in upper case, the rest in lower case.\<close>

fun ascii_capitalize :: "string \<Rightarrow> string" where
  "ascii_capitalize [] = []"
| "ascii_capitalize (c # cs) = upper_char c # map lower_char cs"

definition capitalize :: "unicode \<Rightarrow> string \<Rightarrow> string" where
  "capitalize u s = (if is_ascii s then ascii_capitalize s else unicode_capitalize u s)"

text \<open>\<^verbatim>\<open>str.replace('_', '-')\<close>\<close>

definition replace_underscores :: "string \<Rightarrow> string" where
  "replace_underscores s = map (\<lambda>c. if c = CHR ''_'' then CHR ''-'' else c) s"


text \<open>Truthiness of an optional string: \<open>None\<close> and the empty string are false.\<close>

fun truthy :: "string option \<Rightarrow> bool" where
  "truthy None = False"
| "truthy (Some s) = (s \<noteq> [])"

subsection \<open>Regular expressions\<close>

text \<open>
  The patterns of the module use character classes, concatenation, alternation, the star
  and bounded repetition. A class is a list of inclusive ranges (a single character is
  the range from itself to itself).
\<close>

datatype rx =
    Fail
  | Empty
  | Cls "(char \<times> char) list"
  | Cat rx rx
  | Or rx rx
  | Many rx

definition in_class :: "(char \<times> char) list \<Rightarrow> char \<Rightarrow> bool" where
  "in_class rs c = list_ex (\<lambda>(lo, hi). in_range lo hi c) rs"

text \<open>\<open>r{0,n}\<close>\<close>

primrec upto_times :: "rx \<Rightarrow> nat \<Rightarrow> rx" where
  "upto_times r 0 = Empty"
| "upto_times r (Suc n) = Or Empty (Cat r (upto_times r n))"

text \<open>\<open>m\<close> copies of \<open>r\<close>, then \<open>r{0,n}\<close>\<close>

primrec at_least_then :: "rx \<Rightarrow> nat \<Rightarrow> nat \<Rightarrow> rx" where
  "at_least_then r 0 n = upto_times r n"
| "at_least_then r (Suc m) n = Cat r (at_least_then r m n)"

text \<open>\<open>r{lo,hi}\<close>\<close>

definition rep :: "rx \<Rightarrow> nat \<Rightarrow> nat \<Rightarrow> rx" where
  "rep r lo hi = at_least_then r lo (hi - lo)"

text \<open>
  Matching by derivatives: \<open>deriv c r\<close> matches what \<open>r\<close> matches after a leading \<open>c\<close>.
  The patterns have no back-references and no lookaround, so a backtracking matcher finds
  a match of the whole string exactly when the string is in the language of the pattern.
\<close>

primrec nullable :: "rx \<Rightarrow> bool" where
  "nullable Fail = False"
| "nullable Empty = True"
| "nullable (Cls rs) = False"
| "nullable (Cat r s) = (nullable r \<and> nullable s)"
| "nullable (Or r s) = (nullable r \<or> nullable s)"
| "nullable (Many r) = True"

primrec deriv :: "char \<Rightarrow> rx \<Rightarrow> rx" where
  "deriv c Fail = Fail"
| "deriv c Empty = Fail"
| "deriv c (Cls rs) = (if in_class rs c then Empty else Fail)"
| "deriv c (Cat r s) =
     (if nullable r then Or (Cat (deriv c r) s) (deriv c s) else Cat (deriv c r) s)"
| "deriv c (Or r s) = Or (deriv c r) (deriv c s)"
| "deriv c (Many r) = Cat (deriv c r) (Many r)"

primrec fullmatch :: "rx \<Rightarrow> string \<Rightarrow> bool" where
  "fullmatch r [] = nullable r"
| "fullmatch r (c # cs) = fullmatch (deriv c r) cs"

text \<open>
  \<^verbatim>\<open>re.match('^' + r + '$', s)\<close> without flags: the whole string matches \<open>r\<close>, or the
  string ends in a newline and everything before that newline matches \<open>r\<close> (\<^verbatim>\<open>$\<close> also
  matches just before a newline that ends the string).
\<close>

definition re_match_anchored :: "rx \<Rightarrow> string \<Rightarrow> bool" where
  "re_match_anchored r s =
     (fullmatch r s \<or> (s \<noteq> [] \<and> last s = newline \<and> fullmatch r (butlast s)))"

subsection \<open>The argument namespace\<close>

text \<open>
  A platform workload identity descriptor; only its \<^verbatim>\<open>resource_id\<close> attribute is read
  and written here.
\<close>

record identity =
  resource_id :: string

text \<open>
  An attribute that the namespace may lack altogether: \<^verbatim>\<open>validate_client_id\<close> asks
  \<^verbatim>\<open>hasattr(namespace, 'enable_managed_identity')\<close> first.
\<close>

datatype 'a attr = NoAttr | Attr 'a

text \<open>
  The attributes of the namespace that the validators below read or assign. An optional
  argument that was not given is \<open>None\<close>. The two subnet arguments are strings: the
  validator concatenates the value to the vnet.
\<close>

record namespace =
  client_id :: "string option"
  client_secret :: "string option"
  enable_managed_identity :: "bool option attr"
  platform_workload_identities :: "(string \<times> identity) list option"
  mi_user_assigned :: "string option"
  upgradeable_to :: "string option"
  domain :: "string option"
  pull_secret :: "string option"
  outbound_type :: "string option"
  ingress_visibility :: "string option"
  apiserver_visibility :: "string option"
  master_subnet :: string
  worker_subnet :: string
  vnet :: "string option"
  vnet_resource_group_name :: "string option"
  resource_group_name :: "string option"
  worker_count :: "int option"

text \<open>A string between single quotes, as the messages print values.\<close>

definition quoted :: "string \<Rightarrow> string" where
  "quoted s = CHR 0x27 # s @ [CHR 0x27]"

subsection \<open>Version formats\<close>

definition digit_4_9 :: rx where "digit_4_9 = Cls [(CHR ''4'', CHR ''9'')]"
definition digit_0_9 :: rx where "digit_0_9 = Cls [(CHR ''0'', CHR ''9'')]"
definition digit_1_9 :: rx where "digit_1_9 = Cls [(CHR ''1'', CHR ''9'')]"
definition dot :: rx where "dot = Cls [(CHR ''.'', CHR ''.'')]"

text \<open>\<^verbatim>\<open>[4-9]{1}\.(1[4-9]|[1-9][0-9])\.[0-9]{1,2}\<close>\<close>

definition upgradeable_to_rx :: rx where
  "upgradeable_to_rx =
     Cat (rep digit_4_9 1 1)
    (Cat dot
    (Cat (Or (Cat (Cls [(CHR ''1'', CHR ''1'')]) digit_4_9) (Cat digit_1_9 digit_0_9))
    (Cat dot
         (rep digit_0_9 1 2))))"

text \<open>
  \<^verbatim>\<open>validate_upgradeable_to_format\<close>: \<^verbatim>\<open>not namespace.upgradeable_to\<close> holds for
  \<open>None\<close> and for the empty string.
\<close>

definition validate_upgradeable_to_format :: "namespace \<Rightarrow> result" where
  "validate_upgradeable_to_format ns =
     (if \<not> truthy (upgradeable_to ns) then Inr ()
      else case upgradeable_to ns of
        None \<Rightarrow> Inr ()
      | Some v \<Rightarrow>
          if \<not> re_match_anchored upgradeable_to_rx v
          then Inl (InvalidArgumentValueError ''--upgradeable-to format is invalid'')
          else Inr ())"

subsection \<open>Worker count\<close>

text \<open>
  \<^verbatim>\<open>validate_worker_count\<close>: \<^verbatim>\<open>not namespace.worker_count\<close> holds for \<open>None\<close> and
  for \<open>0\<close>. The message ends in \<^verbatim>\<open>str(3)\<close>.
\<close>

definition validate_worker_count :: "namespace \<Rightarrow> result" where
  "validate_worker_count ns =
     (case worker_count ns of
        None \<Rightarrow> Inr ()
      | Some n \<Rightarrow>
          if n = 0 then Inr ()
          else if n < 3
          then Inl (InvalidArgumentValueError
                 (''--worker-count must be greater than or equal to '' @ ''3''))
          else Inr ())"

subsection \<open>Client id and managed identity\<close>

text \<open>
  \<^verbatim>\<open>validate_client_id(isCreate)\<close>. \<open>uuid_parses\<close> stands for the standard library's
  \<^verbatim>\<open>uuid.UUID\<close>: it is true when the constructor accepts the string and false when it
  raises \<^verbatim>\<open>ValueError\<close>.
\<close>

definition validate_client_id :: "(string \<Rightarrow> bool) \<Rightarrow> bool \<Rightarrow> namespace \<Rightarrow> result" where
  "validate_client_id uuid_parses isCreate ns =
     (case client_id ns of
        None \<Rightarrow> Inr ()
      | Some cid \<Rightarrow>
          if enable_managed_identity ns = Attr (Some True)
          then Inl (MutuallyExclusiveArgumentError
                 ''Must not specify --client-id when --enable-managed-identity is True'')
          else if platform_workload_identities ns \<noteq> None
          then Inl (MutuallyExclusiveArgumentError
                 ''Must not specify --client-id when --assign-platform-workload-identity is used'')
          else if \<not> uuid_parses cid
          then Inl (InvalidArgumentValueError (''Invalid --client-id '' @ quoted cid @ ''.''))
          else if \<not> truthy (client_secret ns)
          then Inl (RequiredArgumentMissingError ''Must specify --client-secret with --client-id.'')
          else if \<not> isCreate \<and> upgradeable_to ns \<noteq> None
          then Inl (MutuallyExclusiveArgumentError
                 ''Must not specify --client-id when --upgradeable-to is used.'')
          else Inr ())"

text \<open>
  \<^verbatim>\<open>validate_enable_managed_identity\<close> reads the attribute without asking whether it
  exists.
\<close>

definition validate_enable_managed_identity :: "namespace \<Rightarrow> result" where
  "validate_enable_managed_identity ns =
     (case enable_managed_identity ns of
        NoAttr \<Rightarrow> Inl (AttributeError ''enable_managed_identity'')
      | Attr e \<Rightarrow>
          if e \<noteq> Some True then Inr ()
          else if client_id ns \<noteq> None
          then Inl (InvalidArgumentValueError
                 ''Must not specify --client-id when --enable-managed-identity is True'')
          else if client_secret ns \<noteq> None
          then Inl (InvalidArgumentValueError
                 ''Must not specify --client-secret when --enable-managed-identity is True'')
          else if platform_workload_identities ns = None \<or> platform_workload_identities ns = Some []
          then Inl (RequiredArgumentMissingError
                 ''Enabling managed identity requires platform workload identities to be provided'')
          else if \<not> truthy (mi_user_assigned ns)
          then Inl (RequiredArgumentMissingError
                 ''Enabling managed identity requires cluster identity to be provided'')
          else Inr ())"

subsection \<open>Outbound type and visibility\<close>

definition is_visibility_public :: "string option \<Rightarrow> bool" where
  "is_visibility_public visibility = (visibility = Some ''Public'' \<or> visibility = None)"

definition validate_outbound_type :: "namespace \<Rightarrow> result" where
  "validate_outbound_type ns =
     (if outbound_type ns \<notin> {Some ''UserDefinedRouting'', Some ''Loadbalancer'', None}
      then Inl (InvalidArgumentValueError
             (''Invalid --outbound-type: must be '' @ [CHR 0x22] @ ''UserDefinedRouting''
              @ [CHR 0x22] @ '' or '' @ [CHR 0x22] @ ''Loadbalancer'' @ [CHR 0x22]))
      else if outbound_type ns = Some ''UserDefinedRouting'' \<and>
              (is_visibility_public (ingress_visibility ns) \<or>
               is_visibility_public (apiserver_visibility ns))
      then Inl (InvalidArgumentValueError
             (''Invalid --outbound-type: cannot use UserDefinedRouting when '' @
              ''either --apiserver-visibility or --ingress-visibility is set '' @
              ''to Public or not defined''))
      else Inr ())"

text \<open>
  \<^verbatim>\<open>validate_visibility(key)\<close> is used with the two keys below; \<^verbatim>\<open>getattr\<close> reads the
  attribute of that name.
\<close>

datatype visibility_key = Ingress_visibility | Apiserver_visibility

fun visibility_key_name :: "visibility_key \<Rightarrow> string" where
  "visibility_key_name Ingress_visibility = ''ingress_visibility''"
| "visibility_key_name Apiserver_visibility = ''apiserver_visibility''"

fun getattr_visibility :: "namespace \<Rightarrow> visibility_key \<Rightarrow> string option" where
  "getattr_visibility ns Ingress_visibility = ingress_visibility ns"
| "getattr_visibility ns Apiserver_visibility = apiserver_visibility ns"

text \<open>
  The validator is given with the namespace it leaves behind, so that what it assigns
  (nothing) is a statement about the model. The capitalised value is a local variable.
\<close>

definition validate_visibility ::
  "unicode \<Rightarrow> visibility_key \<Rightarrow> namespace \<Rightarrow> result \<times> namespace" where
  "validate_visibility u key ns =
     (case getattr_visibility ns key of
        None \<Rightarrow> (Inr (), ns)
      | Some v \<Rightarrow>
          let visibility = capitalize u v in
          if visibility \<notin> set [''Private'', ''Public'']
          then (Inl (InvalidArgumentValueError
                  (''Invalid --'' @ replace_underscores (visibility_key_name key) @ '' ''
                   @ quoted visibility @ ''.'')), ns)
          else (Inr (), ns))"

subsection \<open>Domain\<close>

definition alnum :: rx where
  "alnum = Cls [(CHR ''a'', CHR ''z''), (CHR ''0'', CHR ''9'')]"

definition hyphen_alnum :: rx where
  "hyphen_alnum = Cls [(CHR ''-'', CHR ''-''), (CHR ''a'', CHR ''z''), (CHR ''0'', CHR ''9'')]"

text \<open>\<^verbatim>\<open>([a-z0-9]|[a-z0-9][-a-z0-9]{0,61}[a-z0-9])\<close>\<close>

definition label_rx :: rx where
  "label_rx = Or alnum (Cat alnum (Cat (rep hyphen_alnum 0 61) alnum))"

text \<open>The label, then \<^verbatim>\<open>(\.(label))*\<close>\<close>

definition domain_rx :: rx where
  "domain_rx = Cat label_rx (Many (Cat dot label_rx))"

definition validate_domain :: "namespace \<Rightarrow> result" where
  "validate_domain ns =
     (case domain ns of
        None \<Rightarrow> Inr ()
      | Some d \<Rightarrow>
          if \<not> re_match_anchored domain_rx d
          then Inl (InvalidArgumentValueError (''Invalid --domain '' @ quoted d @ ''.''))
          else Inr ())"

subsection \<open>Pull secret\<close>


text \<open>What \<^verbatim>\<open>json.loads\<close> returns; the value of a float is not looked at.\<close>

datatype json =
    JObject "(string \<times> json) list"
  | JArray "json list"
  | JString string
  | JInt int
  | JFloat
  | JBool bool
  | JNull



subsection \<open>Resource identifiers and the command context\<close>

text \<open>
  The dictionary that \<^verbatim>\<open>parse_resource_id\<close> returns. A key that the dictionary lacks is
  \<open>None\<close>; reading it with \<^verbatim>\<open>parts[key]\<close> raises \<^verbatim>\<open>KeyError\<close>.
\<close>

record rid_parts =
  part_subscription :: "string option"
  part_resource_group :: "string option"
  part_namespace :: "string option"
  part_type :: "string option"
  part_name :: "string option"
  part_last_child_num :: "int option"
  part_child_namespace_1 :: "string option"
  part_child_type_1 :: "string option"
  part_child_name_1 :: "string option"

text \<open>
  An exception of the remote subnet lookup, with \<^verbatim>\<open>str(err)\<close>: the SDK's
  \<^verbatim>\<open>ResourceNotFoundError\<close> or any other subclass of \<^verbatim>\<open>Exception\<close>.
\<close>

datatype exn = ResourceNotFoundError string | OtherException string

datatype remote = Returned | Raised exn

text \<open>
  The collaborators that are not part of this module: the active subscription of the
  command context, the resource-id helpers of \<^verbatim>\<open>msrestazure.tools\<close>
  (\<open>tools_resource_id\<close> is \<^verbatim>\<open>resource_id(subscription, resource_group, namespace, type,
  name)\<close>) and the subnet \<^verbatim>\<open>Show\<close> command, called with name, vnet name and resource
  group.
\<close>

record cmd =
  get_subscription_id :: string
  is_valid_resource_id :: "string \<Rightarrow> bool"
  parse_resource_id :: "string \<Rightarrow> rid_parts"
  tools_resource_id :: "string \<Rightarrow> string option \<Rightarrow> string \<Rightarrow> string \<Rightarrow> string \<Rightarrow> string"
  subnet_show :: "string \<Rightarrow> string \<Rightarrow> string \<Rightarrow> remote"

subsection \<open>Virtual network and subnets\<close>

definition validate_vnet_resource_group_name :: "namespace \<Rightarrow> namespace" where
  "validate_vnet_resource_group_name ns =
     (if \<not> truthy (vnet_resource_group_name ns)
      then ns\<lparr>vnet_resource_group_name := resource_group_name ns\<rparr>
      else ns)"

definition validate_vnet :: "cmd \<Rightarrow> namespace \<Rightarrow> namespace" where
  "validate_vnet c ns =
     (let ns1 = validate_vnet_resource_group_name ns in
      case vnet ns1 of
        None \<Rightarrow> ns1
      | Some v \<Rightarrow>
          if v = [] then ns1
          else if \<not> is_valid_resource_id c v
          then ns1\<lparr>vnet := Some (tools_resource_id c (get_subscription_id c)
                                 (vnet_resource_group_name ns1)
                                 ''Microsoft.Network'' ''virtualNetworks'' v)\<rparr>
          else ns1)"

text \<open>\<^verbatim>\<open>validate_subnet(key)\<close> is used with the two keys below.\<close>

datatype subnet_key = Master_subnet | Worker_subnet

fun subnet_key_name :: "subnet_key \<Rightarrow> string" where
  "subnet_key_name Master_subnet = ''master_subnet''"
| "subnet_key_name Worker_subnet = ''worker_subnet''"

fun getattr_subnet :: "namespace \<Rightarrow> subnet_key \<Rightarrow> string" where
  "getattr_subnet ns Master_subnet = master_subnet ns"
| "getattr_subnet ns Worker_subnet = worker_subnet ns"

fun setattr_subnet :: "namespace \<Rightarrow> subnet_key \<Rightarrow> string \<Rightarrow> namespace" where
  "setattr_subnet ns Master_subnet v = ns\<lparr>master_subnet := v\<rparr>"
| "setattr_subnet ns Worker_subnet v = ns\<lparr>worker_subnet := v\<rparr>"

text \<open>\<^verbatim>\<open>--{key.replace('_', '-')}\<close>\<close>

definition subnet_flag :: "subnet_key \<Rightarrow> string" where
  "subnet_flag key = ''--'' @ replace_underscores (subnet_key_name key)"

text \<open>
  The first block of \<^verbatim>\<open>_validate_subnet\<close>: a value that is not a resource id is
  completed from the vnet, and the completed value is assigned to the namespace.
  \<^verbatim>\<open>validate_vnet\<close> leaves a vnet that was given in place, so the \<open>None\<close> case of the
  concatenation is there for totality only.
\<close>

definition resolve_subnet :: "subnet_key \<Rightarrow> cmd \<Rightarrow> namespace \<Rightarrow> (error + string) \<times> namespace" where
  "resolve_subnet key c ns =
     (let subnet = getattr_subnet ns key in
      if \<not> is_valid_resource_id c subnet then
        if \<not> truthy (vnet ns)
        then (Inl (RequiredArgumentMissingError
                (''Must specify --vnet if '' @ subnet_flag key @ '' is not an id.'')), ns)
        else
          let ns1 = validate_vnet c ns in
          case vnet ns1 of
            None \<Rightarrow> (Inl (TypeError ''unsupported operand type(s) for +''), ns1)
          | Some v \<Rightarrow>
              let subnet' = v @ ''/subnets/'' @ subnet
              in (Inr subnet', setattr_subnet ns1 key subnet')
      else (Inr subnet, ns))"

text \<open>The checks on the parsed identifier, in the order of the source.\<close>

definition check_subnet_parts ::
  "unicode \<Rightarrow> subnet_key \<Rightarrow> cmd \<Rightarrow> string \<Rightarrow> rid_parts \<Rightarrow> result" where
  "check_subnet_parts u key c subnet parts =
     (case part_subscription parts of
        None \<Rightarrow> Inl (KeyError ''subscription'')
      | Some sub \<Rightarrow>
     if sub \<noteq> get_subscription_id c
     then Inl (InvalidArgumentValueError
            (subnet_flag key @ '' subscription '' @ quoted sub @ '' must equal cluster subscription.''))
     else case part_namespace parts of
        None \<Rightarrow> Inl (KeyError ''namespace'')
      | Some nsp \<Rightarrow>
     if lower u nsp \<noteq> ''microsoft.network''
     then Inl (InvalidArgumentValueError
            (subnet_flag key @ '' namespace '' @ quoted nsp @ '' must equal Microsoft.Network.''))
     else case part_type parts of
        None \<Rightarrow> Inl (KeyError ''type'')
      | Some ty \<Rightarrow>
     if lower u ty \<noteq> ''virtualnetworks''
     then Inl (InvalidArgumentValueError
            (subnet_flag key @ '' type '' @ quoted ty @ '' must equal virtualNetworks.''))
     else case part_last_child_num parts of
        None \<Rightarrow> Inl (KeyError ''last_child_num'')
      | Some n \<Rightarrow>
     if n \<noteq> 1
     then Inl (InvalidArgumentValueError
            (subnet_flag key @ '' '' @ quoted subnet @ '' must have one child.''))
     else if part_child_namespace_1 parts \<noteq> None
     then Inl (InvalidArgumentValueError
            (subnet_flag key @ '' '' @ quoted subnet @ '' must not have child namespace.''))
     else case part_child_type_1 parts of
        None \<Rightarrow> Inl (KeyError ''child_type_1'')
      | Some ct \<Rightarrow>
     if lower u ct \<noteq> ''subnets''
     then Inl (InvalidArgumentValueError
            (subnet_flag key @ '' child type '' @ quoted subnet @ '' must equal subnets.''))
     else Inr ())"

text \<open>
  The body of the \<^verbatim>\<open>try\<close>: the three dictionary reads happen inside it, so a missing key
  is an exception of the block like any other, with \<^verbatim>\<open>str(err)\<close> the quoted key.
\<close>

definition lookup_subnet :: "cmd \<Rightarrow> rid_parts \<Rightarrow> remote" where
  "lookup_subnet c parts =
     (case part_child_name_1 parts of
        None \<Rightarrow> Raised (OtherException (quoted ''child_name_1''))
      | Some child_name \<Rightarrow>
     case part_name parts of
        None \<Rightarrow> Raised (OtherException (quoted ''name''))
      | Some vnet_name \<Rightarrow>
     case part_resource_group parts of
        None \<Rightarrow> Raised (OtherException (quoted ''resource_group''))
      | Some resource_group \<Rightarrow> subnet_show c child_name vnet_name resource_group)"

text \<open>The \<^verbatim>\<open>except Exception\<close> clause.\<close>

fun report_lookup :: "subnet_key \<Rightarrow> string \<Rightarrow> remote \<Rightarrow> result" where
  "report_lookup key subnet Returned = Inr ()"
| "report_lookup key subnet (Raised (ResourceNotFoundError msg)) =
     Inl (InvalidArgumentValueError
       (''Invalid '' @ subnet_flag key @ '', error when getting '' @ quoted subnet @ '': '' @ msg))"
| "report_lookup key subnet (Raised (OtherException msg)) =
     Inl (CLIInternalError
       (''Unexpected error when getting subnet '' @ quoted subnet @ '': '' @ msg))"

definition validate_subnet ::
  "unicode \<Rightarrow> subnet_key \<Rightarrow> cmd \<Rightarrow> namespace \<Rightarrow> result \<times> namespace" where
  "validate_subnet u key c ns =
     (case resolve_subnet key c ns of
        (Inl e, ns') \<Rightarrow> (Inl e, ns')
      | (Inr subnet, ns') \<Rightarrow>
          let parts = parse_resource_id c subnet in
          case check_subnet_parts u key c subnet parts of
            Inl e \<Rightarrow> (Inl e, ns')
          | Inr u \<Rightarrow> (report_lookup key subnet (lookup_subnet c parts), ns'))"

subsection \<open>Platform workload identities\<close>






text \<open>
  \<^verbatim>\<open>is_valid_identity_resource_id\<close>: the second dictionary read happens only when the
  first comparison holds.
\<close>

definition is_valid_identity_resource_id :: "cmd \<Rightarrow> string \<Rightarrow> error + bool" where
  "is_valid_identity_resource_id c rid =
     (let parsed = parse_resource_id c rid in
      case part_namespace parsed of
        None \<Rightarrow> Inl (KeyError ''namespace'')
      | Some nsp \<Rightarrow>
          if nsp \<noteq> ''Microsoft.ManagedIdentity'' then Inr False
          else case part_type parsed of
                 None \<Rightarrow> Inl (KeyError ''type'')
               | Some ty \<Rightarrow> Inr (ty = ''userAssignedIdentities''))"





subsection \<open>A namespace for the examples\<close>

text \<open>Unicode tables that leave a string with a character outside ASCII as it is.\<close>

definition plain_unicode :: unicode where
  "plain_unicode = \<lparr>unicode_lower = (\<lambda>s. s), unicode_capitalize = (\<lambda>s. s)\<rparr>"

definition no_arguments :: namespace where
  "no_arguments = \<lparr>
     client_id = None, client_secret = None, enable_managed_identity = Attr None,
     platform_workload_identities = None, mi_user_assigned = None, upgradeable_to = None,
     domain = None, pull_secret = None, outbound_type = None, ingress_visibility = None,
     apiserver_visibility = None, master_subnet = ''master'', worker_subnet = ''worker'',
     vnet = None, vnet_resource_group_name = None, resource_group_name = Some ''rg'',
     worker_count = None \<rparr>"

subsection \<open>A command context for the examples\<close>

definition example_parts :: rid_parts where
  "example_parts = \<lparr>
     part_subscription = Some ''sub'', part_resource_group = Some ''rg'',
     part_namespace = Some ''Microsoft.Network'', part_type = Some ''virtualNetworks'',
     part_name = Some ''vnet1'', part_last_child_num = Some 1,
     part_child_namespace_1 = None, part_child_type_1 = Some ''subnets'',
     part_child_name_1 = Some ''master'' \<rparr>"

text \<open>
  A context whose parser answers \<open>parts\<close> for every identifier and whose subnet lookup
  ends as \<open>answer\<close> says.
\<close>

definition example_cmd :: "rid_parts \<Rightarrow> remote \<Rightarrow> cmd" where
  "example_cmd parts answer = \<lparr>
     get_subscription_id = ''sub'',
     is_valid_resource_id = (\<lambda>s. take 15 s = ''/subscriptions/''),
     parse_resource_id = (\<lambda>s. parts),
     tools_resource_id = (\<lambda>sub rg nsp ty name.
        ''/subscriptions/'' @ sub @ ''/resourceGroups/'' @ (case rg of None \<Rightarrow> [] | Some g \<Rightarrow> g)
        @ ''/providers/'' @ nsp @ ''/'' @ ty @ ''/'' @ name),
     subnet_show = (\<lambda>name vnet_name resource_group. answer) \<rparr>"

definition example_subnet_id :: string where
  "example_subnet_id =
     ''/subscriptions/sub/resourceGroups/rg/providers/Microsoft.Network/virtualNetworks/vnet1/subnets/master''"

subsection \<open>Identities for the examples\<close>





subsection \<open>The description of a domain name\<close>

text \<open>
  The description that the domain pattern is compared with, after the words of the
  specification: a dot-separated sequence of labels, each of 1 to 63 characters that are
  alphanumeric or hyphens, the first and the last of them alphanumeric. It is stated for
  any notion of alphanumeric character; \<open>any_alnum\<close> has the letters of both cases and
  \<open>lower_alnum\<close> the lowercase letters only. \<open>split_dots\<close> is \<^verbatim>\<open>str.split('.')\<close>.
\<close>

definition lower_alnum :: "char \<Rightarrow> bool" where
  "lower_alnum c = (in_range CHR ''a'' CHR ''z'' c \<or> in_range CHR ''0'' CHR ''9'' c)"

definition any_alnum :: "char \<Rightarrow> bool" where
  "any_alnum c = (in_range CHR ''a'' CHR ''z'' c \<or> in_range CHR ''A'' CHR ''Z'' c \<or>
                  in_range CHR ''0'' CHR ''9'' c)"

definition is_label :: "(char \<Rightarrow> bool) \<Rightarrow> string \<Rightarrow> bool" where
  "is_label alphanumeric l =
     (1 \<le> length l \<and> length l \<le> 63 \<and>
      list_all (\<lambda>c. alphanumeric c \<or> c = CHR ''-'') l \<and>
      alphanumeric (hd l) \<and> alphanumeric (last l))"

fun split_dots :: "string \<Rightarrow> string list" where
  "split_dots [] = [[]]"
| "split_dots (c # cs) =
     (if c = CHR ''.'' then [] # split_dots cs
      else case split_dots cs of
             [] \<Rightarrow> [[c]]
           | l # ls \<Rightarrow> (c # l) # ls)"

definition is_domain :: "(char \<Rightarrow> bool) \<Rightarrow> string \<Rightarrow> bool" where
  "is_domain alphanumeric d = list_all (is_label alphanumeric) (split_dots d)"

section \<open>Properties\<close>

subsection \<open>Upgrade target format\<close>

lemma upgradeable_to_accepts_minor_10_13:
  "re_match_anchored upgradeable_to_rx ''4.10.5''"
  "re_match_anchored upgradeable_to_rx ''4.11.0''"
  "re_match_anchored upgradeable_to_rx ''5.12.45''"
  "re_match_anchored upgradeable_to_rx ''9.13.9''"
  by code_simp+

text \<open>
  C1 (the code at the failing inputs): upgrade targets with a minor version of 10, 11, 12
  or 13 are accepted. The second alternative of the minor group, \<^verbatim>\<open>[1-9][0-9]\<close>,
  matches every two-digit minor from 10 on, so the first one, \<^verbatim>\<open>1[4-9]\<close>, restricts
  nothing.
\<close>

theorem validate_upgradeable_to_format_minor_below_14:
  "validate_upgradeable_to_format (ns\<lparr>upgradeable_to := Some ''4.10.5''\<rparr>) = Inr () \<and>
   validate_upgradeable_to_format (ns\<lparr>upgradeable_to := Some ''4.11.0''\<rparr>) = Inr () \<and>
   validate_upgradeable_to_format (ns\<lparr>upgradeable_to := Some ''5.12.45''\<rparr>) = Inr () \<and>
   validate_upgradeable_to_format (ns\<lparr>upgradeable_to := Some ''9.13.9''\<rparr>) = Inr ()"
  by (simp add: validate_upgradeable_to_format_def upgradeable_to_accepts_minor_10_13)

subsection \<open>Worker count\<close>

text \<open>
  C2 (counterexample): a worker count of 0 is present and below 3, and the validator
  returns normally: the guard \<^verbatim>\<open>if not namespace.worker_count\<close> treats 0 like an
  absent value.
\<close>

theorem validate_worker_count_zero_passes:
  "worker_count (no_arguments\<lparr>worker_count := Some 0\<rparr>) = Some 0 \<and> (0::int) < 3 \<and>
   validate_worker_count (no_arguments\<lparr>worker_count := Some 0\<rparr>) = Inr ()"
  by (simp add: validate_worker_count_def)

text \<open>
  C2 (amended): for a present worker count \<open>n\<close>, the validator raises
  \<^verbatim>\<open>InvalidArgumentValueError\<close> exactly when \<open>n < 3\<close> and \<open>n \<noteq> 0\<close>, and returns normally
  exactly when \<open>n \<ge> 3\<close> or \<open>n = 0\<close>.
\<close>

theorem validate_worker_count_spec:
  assumes "worker_count ns = Some n"
  shows "((\<exists>m. validate_worker_count ns = Inl (InvalidArgumentValueError m)) \<longleftrightarrow> n < 3 \<and> n \<noteq> 0)
       \<and> (validate_worker_count ns = Inr () \<longleftrightarrow> 3 \<le> n \<or> n = 0)"
  using assms by (auto simp: validate_worker_count_def)

text \<open>C2 (witness): a worker count of 2 is rejected.\<close>

theorem validate_worker_count_spec_witness:
  "worker_count (no_arguments\<lparr>worker_count := Some 2\<rparr>) = Some 2 \<and>
   (\<exists>m. validate_worker_count (no_arguments\<lparr>worker_count := Some 2\<rparr>) = Inl (InvalidArgumentValueError m)) \<and>
   validate_worker_count (no_arguments\<lparr>worker_count := Some 2\<rparr>) \<noteq> Inr ()"
  using validate_worker_count_spec [of "no_arguments\<lparr>worker_count := Some 2\<rparr>" 2] by simp

subsection \<open>Managed identity together with a client id\<close>

text \<open>
  C3 (counterexample): with managed identity enabled and a client id given,
  \<^verbatim>\<open>validate_enable_managed_identity\<close> raises \<^verbatim>\<open>InvalidArgumentValueError\<close>, which is
  not the mutually-exclusive kind.
\<close>

theorem validate_enable_managed_identity_not_mutually_exclusive:
  "validate_enable_managed_identity
     (no_arguments\<lparr>enable_managed_identity := Attr (Some True),
                   client_id := Some ''00000000-0000-0000-0000-000000000000''\<rparr>)
   = Inl (InvalidArgumentValueError
       ''Must not specify --client-id when --enable-managed-identity is True'')
   \<and> InvalidArgumentValueError
       ''Must not specify --client-id when --enable-managed-identity is True''
     \<noteq> MutuallyExclusiveArgumentError
       ''Must not specify --client-id when --enable-managed-identity is True''"
  by (simp add: validate_enable_managed_identity_def no_arguments_def)

text \<open>
  C3 (amended): with managed identity enabled and a client id given, both validators
  fail with the same message; \<^verbatim>\<open>validate_client_id\<close> (create and update alike) raises
  \<^verbatim>\<open>MutuallyExclusiveArgumentError\<close> and \<^verbatim>\<open>validate_enable_managed_identity\<close> raises
  \<^verbatim>\<open>InvalidArgumentValueError\<close>.
\<close>

theorem managed_identity_with_client_id_fails:
  assumes "enable_managed_identity ns = Attr (Some True)" and "client_id ns = Some cid"
  shows "validate_client_id uuid_parses isCreate ns =
           Inl (MutuallyExclusiveArgumentError
             ''Must not specify --client-id when --enable-managed-identity is True'')
       \<and> validate_enable_managed_identity ns =
           Inl (InvalidArgumentValueError
             ''Must not specify --client-id when --enable-managed-identity is True'')"
  using assms by (simp add: validate_client_id_def validate_enable_managed_identity_def)

text \<open>C3 (witness): the two validators on one such namespace.\<close>

theorem managed_identity_with_client_id_fails_witness:
  "validate_client_id (\<lambda>s. True) True
     (no_arguments\<lparr>enable_managed_identity := Attr (Some True), client_id := Some ''abc''\<rparr>) =
           Inl (MutuallyExclusiveArgumentError
             ''Must not specify --client-id when --enable-managed-identity is True'')
       \<and> validate_enable_managed_identity
     (no_arguments\<lparr>enable_managed_identity := Attr (Some True), client_id := Some ''abc''\<rparr>) =
           Inl (InvalidArgumentValueError
             ''Must not specify --client-id when --enable-managed-identity is True'')"
  using managed_identity_with_client_id_fails
    [of "no_arguments\<lparr>enable_managed_identity := Attr (Some True), client_id := Some ''abc''\<rparr>"
        "''abc''" "\<lambda>s. True" True]
  by simp

subsection \<open>Visibility\<close>

lemma capitalize_private: "capitalize u ''private'' = ''Private''"
  by (simp add: capitalize_def is_ascii_def) code_simp

lemma capitalize_public: "capitalize u ''public'' = ''Public''"
  by (simp add: capitalize_def is_ascii_def) code_simp

subsection \<open>Outbound type\<close>

text \<open>
  What the validator rejects: an outbound type other than the two names, and user-defined
  routing with a visibility that is unset or the exact string \<^verbatim>\<open>Public\<close>.
\<close>

lemma validate_outbound_type_raises:
  "(outbound_type ns \<notin> {Some ''UserDefinedRouting'', Some ''Loadbalancer'', None} \<longrightarrow>
      (\<exists>m. validate_outbound_type ns = Inl (InvalidArgumentValueError m)))
   \<and> (outbound_type ns = Some ''UserDefinedRouting'' \<and>
      (ingress_visibility ns = None \<or> ingress_visibility ns = Some ''Public'' \<or>
       apiserver_visibility ns = None \<or> apiserver_visibility ns = Some ''Public'') \<longrightarrow>
      (\<exists>m. validate_outbound_type ns = Inl (InvalidArgumentValueError m)))
   \<and> (outbound_type ns = Some ''UserDefinedRouting'' \<and>
      ingress_visibility ns = Some ''Private'' \<and> apiserver_visibility ns = Some ''Private'' \<longrightarrow>
      validate_outbound_type ns = Inr ())"
  by (auto simp: validate_outbound_type_def is_visibility_public_def)

text \<open>
  C5 (the code at the failing input): with user-defined routing and both visibilities
  given as the lowercase \<^verbatim>\<open>public\<close>, the validator returns normally. The visibility
  validator accepts that value for both keys, as the capitalised \<^verbatim>\<open>Public\<close>, and leaves
  it lowercase in the namespace; \<^verbatim>\<open>is_visibility_public\<close> compares the stored value with
  the exact string \<^verbatim>\<open>Public\<close>, so the check that rejects the same namespace with
  \<^verbatim>\<open>Public\<close> misses it.
\<close>

theorem validate_outbound_type_lowercase_public_passes:
  "validate_outbound_type
     (ns\<lparr>outbound_type := Some ''UserDefinedRouting'',
         ingress_visibility := Some ''public'',
         apiserver_visibility := Some ''public''\<rparr>) = Inr ()
   \<and> validate_visibility u Ingress_visibility
       (ns\<lparr>outbound_type := Some ''UserDefinedRouting'',
           ingress_visibility := Some ''public'',
           apiserver_visibility := Some ''public''\<rparr>)
     = (Inr (), ns\<lparr>outbound_type := Some ''UserDefinedRouting'',
                    ingress_visibility := Some ''public'',
                    apiserver_visibility := Some ''public''\<rparr>)
   \<and> validate_visibility u Apiserver_visibility
       (ns\<lparr>outbound_type := Some ''UserDefinedRouting'',
           ingress_visibility := Some ''public'',
           apiserver_visibility := Some ''public''\<rparr>)
     = (Inr (), ns\<lparr>outbound_type := Some ''UserDefinedRouting'',
                    ingress_visibility := Some ''public'',
                    apiserver_visibility := Some ''public''\<rparr>)
   \<and> capitalize u ''public'' = ''Public''
   \<and> validate_outbound_type
       (ns\<lparr>outbound_type := Some ''UserDefinedRouting'',
           ingress_visibility := Some ''Public'',
           apiserver_visibility := Some ''Public''\<rparr>)
     = Inl (InvalidArgumentValueError
         (''Invalid --outbound-type: cannot use UserDefinedRouting when '' @
          ''either --apiserver-visibility or --ingress-visibility is set '' @
          ''to Public or not defined''))"
  by (simp add: validate_outbound_type_def is_visibility_public_def validate_visibility_def
        capitalize_public)

subsection \<open>The visibility validator assigns nothing\<close>

text \<open>
  C9: the visibility validator leaves the namespace as it found it, whether it returns
  or raises. A visibility given as the lowercase \<^verbatim>\<open>private\<close> is accepted and stays
  lowercase in the namespace: it is neither the string \<^verbatim>\<open>Private\<close> nor public for
  \<^verbatim>\<open>is_visibility_public\<close>.
\<close>

theorem validate_visibility_frame:
  "snd (validate_visibility u key ns) = ns \<and>
   (getattr_visibility ns key = Some ''private'' \<longrightarrow>
      validate_visibility u key ns = (Inr (), ns) \<and>
      getattr_visibility (snd (validate_visibility u key ns)) key = Some ''private'' \<and>
      \<not> is_visibility_public (getattr_visibility (snd (validate_visibility u key ns)) key) \<and>
      getattr_visibility (snd (validate_visibility u key ns)) key \<noteq> Some ''Private'')"
  by (auto simp: validate_visibility_def Let_def capitalize_private is_visibility_public_def
           split: option.splits)

text \<open>C9 (witness): the ingress visibility \<^verbatim>\<open>private\<close>.\<close>

theorem validate_visibility_frame_witness:
  "validate_visibility plain_unicode Ingress_visibility (no_arguments\<lparr>ingress_visibility := Some ''private''\<rparr>)
     = (Inr (), no_arguments\<lparr>ingress_visibility := Some ''private''\<rparr>)
   \<and> \<not> is_visibility_public
        (ingress_visibility (snd (validate_visibility plain_unicode Ingress_visibility
           (no_arguments\<lparr>ingress_visibility := Some ''private''\<rparr>))))"
  using validate_visibility_frame
    [where u = plain_unicode and key = Ingress_visibility
       and ns = "no_arguments\<lparr>ingress_visibility := Some ''private''\<rparr>"]
  by auto

subsection \<open>Pull secret\<close>





subsection \<open>Subnets\<close>

lemma validate_vnet_vnet:
  assumes "vnet ns = Some v" "v \<noteq> []"
  shows "vnet (validate_vnet c ns) =
           Some (if is_valid_resource_id c v then v
                 else tools_resource_id c (get_subscription_id c)
                        (if truthy (vnet_resource_group_name ns) then vnet_resource_group_name ns
                         else resource_group_name ns)
                        ''Microsoft.Network'' ''virtualNetworks'' v)"
  using assms by (simp add: validate_vnet_def validate_vnet_resource_group_name_def Let_def)

lemma validate_vnet_group:
  "vnet_resource_group_name (validate_vnet c ns) =
     (if truthy (vnet_resource_group_name ns) then vnet_resource_group_name ns
      else resource_group_name ns)"
  by (simp add: validate_vnet_def validate_vnet_resource_group_name_def Let_def split: option.splits)

lemma snd_validate_subnet: "snd (validate_subnet u key c ns) = snd (resolve_subnet key c ns)"
  by (simp add: validate_subnet_def Let_def split: prod.splits sum.splits)

lemma getattr_setattr_subnet: "getattr_subnet (setattr_subnet ns key v) key = v"
  by (cases key) simp_all

lemma vnet_setattr_subnet:
  "vnet (setattr_subnet ns key v) = vnet ns"
  "vnet_resource_group_name (setattr_subnet ns key v) = vnet_resource_group_name ns"
  by (cases key; simp)+

lemma snd_resolve_subnet_short:
  assumes "\<not> is_valid_resource_id c (getattr_subnet ns key)"
    and "vnet ns = Some v" and "v \<noteq> []"
    and "vnet (validate_vnet c ns) = Some full"
  shows "snd (resolve_subnet key c ns)
           = setattr_subnet (validate_vnet c ns) key (full @ ''/subnets/'' @ getattr_subnet ns key)"
  using assms by (simp add: resolve_subnet_def Let_def)

lemma validate_subnet_short_with_vnet:
  assumes "\<not> is_valid_resource_id c (getattr_subnet ns key)"
    and "vnet ns = Some v" and "v \<noteq> []"
  shows "vnet_resource_group_name (snd (validate_subnet u key c ns)) =
           (if truthy (vnet_resource_group_name ns) then vnet_resource_group_name ns
            else resource_group_name ns)
       \<and> vnet (snd (validate_subnet u key c ns)) =
           Some (if is_valid_resource_id c v then v
                 else tools_resource_id c (get_subscription_id c)
                        (vnet_resource_group_name (snd (validate_subnet u key c ns)))
                        ''Microsoft.Network'' ''virtualNetworks'' v)
       \<and> (\<exists>full. vnet (snd (validate_subnet u key c ns)) = Some full \<and>
           getattr_subnet (snd (validate_subnet u key c ns)) key
             = full @ ''/subnets/'' @ getattr_subnet ns key)
       \<and> getattr_subnet (snd (validate_subnet u key c ns)) key \<noteq> getattr_subnet ns key"
proof -
  let ?group = "if truthy (vnet_resource_group_name ns) then vnet_resource_group_name ns
                else resource_group_name ns"
  let ?full = "if is_valid_resource_id c v then v
               else tools_resource_id c (get_subscription_id c) ?group
                      ''Microsoft.Network'' ''virtualNetworks'' v"
  have full: "vnet (validate_vnet c ns) = Some ?full"
    by (rule validate_vnet_vnet [OF assms(2,3)])
  have after: "snd (validate_subnet u key c ns)
      = setattr_subnet (validate_vnet c ns) key (?full @ ''/subnets/'' @ getattr_subnet ns key)"
    by (simp only: snd_validate_subnet snd_resolve_subnet_short [OF assms full])
  have g: "vnet_resource_group_name (snd (validate_subnet u key c ns)) = ?group"
    by (simp only: after vnet_setattr_subnet validate_vnet_group)
  have v: "vnet (snd (validate_subnet u key c ns)) = Some ?full"
    by (simp only: after vnet_setattr_subnet full)
  have s: "getattr_subnet (snd (validate_subnet u key c ns)) key
             = ?full @ ''/subnets/'' @ getattr_subnet ns key"
    by (simp only: after getattr_setattr_subnet)
  have "length (getattr_subnet (snd (validate_subnet u key c ns)) key)
          \<noteq> length (getattr_subnet ns key)"
    unfolding s by simp
  then have changed: "getattr_subnet (snd (validate_subnet u key c ns)) key \<noteq> getattr_subnet ns key"
    by metis
  from g v s changed show ?thesis by simp
qed

lemma validate_subnet_short_without_vnet:
  assumes "\<not> is_valid_resource_id c (getattr_subnet ns key)" and "\<not> truthy (vnet ns)"
  shows "validate_subnet u key c ns =
           (Inl (RequiredArgumentMissingError
              (''Must specify --vnet if '' @ subnet_flag key @ '' is not an id.'')), ns)"
  using assms by (simp add: validate_subnet_def resolve_subnet_def Let_def)

lemma example_cmd_simps:
  "get_subscription_id (example_cmd parts answer) = ''sub''"
  "is_valid_resource_id (example_cmd parts answer) s = (take 15 s = ''/subscriptions/'')"
  "parse_resource_id (example_cmd parts answer) s = parts"
  "tools_resource_id (example_cmd parts answer) sub rg nsp ty name =
     ''/subscriptions/'' @ sub @ ''/resourceGroups/'' @ (case rg of None \<Rightarrow> [] | Some g \<Rightarrow> g)
        @ ''/providers/'' @ nsp @ ''/'' @ ty @ ''/'' @ name"
  "subnet_show (example_cmd parts answer) a b d = answer"
  by (simp_all add: example_cmd_def)

lemma master_subnet_flag: "subnet_flag Master_subnet = ''--master-subnet''"
  by (simp add: subnet_flag_def replace_underscores_def)

lemma example_short_name:
  "\<not> is_valid_resource_id (example_cmd parts answer) (getattr_subnet no_arguments Master_subnet)"
  "\<not> is_valid_resource_id (example_cmd parts answer)
       (getattr_subnet (no_arguments\<lparr>vnet := Some ''vnet1''\<rparr>) Master_subnet)"
  by (simp_all add: example_cmd_simps no_arguments_def)

text \<open>
  C10 (counterexample): the short name \<^verbatim>\<open>master\<close> with no vnet: the validator raises
  \<^verbatim>\<open>RequiredArgumentMissingError\<close> and the namespace holds the arguments as they were
  given, the subnet not rewritten.
\<close>

theorem validate_subnet_short_name_without_vnet:
  "\<not> is_valid_resource_id (example_cmd example_parts Returned) (master_subnet no_arguments)
   \<and> master_subnet no_arguments = ''master''
   \<and> validate_subnet plain_unicode Master_subnet (example_cmd example_parts Returned) no_arguments
     = (Inl (RequiredArgumentMissingError
          ''Must specify --vnet if --master-subnet is not an id.''), no_arguments)"
proof -
  have "vnet no_arguments = None" "master_subnet no_arguments = ''master''"
    by (simp_all add: no_arguments_def)
  then show ?thesis
    using validate_subnet_short_without_vnet
            [OF example_short_name(1), where u = plain_unicode and parts1 = example_parts
               and answer1 = Returned]
    by (simp add: master_subnet_flag example_cmd_simps)
qed

text \<open>
  C10 (amended): let the subnet value not be a resource id. If a non-empty vnet is given,
  the namespace that the validator leaves behind has the vnet resource group set to the
  resource group of the cluster when it was empty (and kept otherwise), the vnet as it
  was when it is a resource id and completed to a full resource id otherwise, and the
  subnet attribute as that vnet id followed by \<^verbatim>\<open>/subnets/\<close> and the given name, which
  differs from the given value. This holds for every outcome of the validator: the later
  format checks and the remote lookup assign nothing, so a raise leaves the rewritten
  values in place. If no vnet or an empty one is given, the validator raises
  \<^verbatim>\<open>RequiredArgumentMissingError\<close> and the namespace is as it was.
\<close>

theorem validate_subnet_keeps_rewritten_values:
  assumes "\<not> is_valid_resource_id c (getattr_subnet ns key)"
  shows "(\<forall>v. vnet ns = Some v \<and> v \<noteq> [] \<longrightarrow>
           vnet_resource_group_name (snd (validate_subnet u key c ns)) =
             (if truthy (vnet_resource_group_name ns) then vnet_resource_group_name ns
              else resource_group_name ns)
         \<and> vnet (snd (validate_subnet u key c ns)) =
             Some (if is_valid_resource_id c v then v
                   else tools_resource_id c (get_subscription_id c)
                          (vnet_resource_group_name (snd (validate_subnet u key c ns)))
                          ''Microsoft.Network'' ''virtualNetworks'' v)
         \<and> (\<exists>full. vnet (snd (validate_subnet u key c ns)) = Some full \<and>
             getattr_subnet (snd (validate_subnet u key c ns)) key
               = full @ ''/subnets/'' @ getattr_subnet ns key)
         \<and> getattr_subnet (snd (validate_subnet u key c ns)) key \<noteq> getattr_subnet ns key)
       \<and> (\<not> truthy (vnet ns) \<longrightarrow>
           validate_subnet u key c ns =
             (Inl (RequiredArgumentMissingError
                (''Must specify --vnet if '' @ subnet_flag key @ '' is not an id.'')), ns))"
  using validate_subnet_short_with_vnet [OF assms, of _ u]
        validate_subnet_short_without_vnet [OF assms, of u]
  by blast

lemma example_wrong_subscription_raises:
  "\<exists>m. fst (validate_subnet plain_unicode Master_subnet
            (example_cmd (example_parts\<lparr>part_subscription := Some ''other''\<rparr>) Returned)
            (no_arguments\<lparr>vnet := Some ''vnet1''\<rparr>)) = Inl (InvalidArgumentValueError m)"
  by (simp add: validate_subnet_def resolve_subnet_def check_subnet_parts_def Let_def
        example_cmd_simps example_parts_def no_arguments_def validate_vnet_def
        validate_vnet_resource_group_name_def)

text \<open>
  C10 (witness): the short name \<^verbatim>\<open>master\<close> with the vnet \<^verbatim>\<open>vnet1\<close>, parsed to an
  identifier of another subscription: the validator raises and the namespace holds the
  rewritten subnet, vnet and vnet resource group. The same short name with an empty vnet:
  the validator raises and the namespace is as it was.
\<close>

theorem validate_subnet_keeps_rewritten_values_witness:
  "(\<exists>m. fst (validate_subnet plain_unicode Master_subnet
            (example_cmd (example_parts\<lparr>part_subscription := Some ''other''\<rparr>) Returned)
            (no_arguments\<lparr>vnet := Some ''vnet1''\<rparr>)) = Inl (InvalidArgumentValueError m))
   \<and> master_subnet (no_arguments\<lparr>vnet := Some ''vnet1''\<rparr>) = ''master''
   \<and> master_subnet (snd (validate_subnet plain_unicode Master_subnet
            (example_cmd (example_parts\<lparr>part_subscription := Some ''other''\<rparr>) Returned)
            (no_arguments\<lparr>vnet := Some ''vnet1''\<rparr>)))
       = ''/subscriptions/sub/resourceGroups/rg/providers/Microsoft.Network/virtualNetworks/vnet1/subnets/master''
   \<and> vnet (snd (validate_subnet plain_unicode Master_subnet
            (example_cmd (example_parts\<lparr>part_subscription := Some ''other''\<rparr>) Returned)
            (no_arguments\<lparr>vnet := Some ''vnet1''\<rparr>)))
       = Some ''/subscriptions/sub/resourceGroups/rg/providers/Microsoft.Network/virtualNetworks/vnet1''
   \<and> vnet_resource_group_name (snd (validate_subnet plain_unicode Master_subnet
            (example_cmd (example_parts\<lparr>part_subscription := Some ''other''\<rparr>) Returned)
            (no_arguments\<lparr>vnet := Some ''vnet1''\<rparr>))) = Some ''rg''
   \<and> validate_subnet plain_unicode Master_subnet (example_cmd example_parts Returned)
        (no_arguments\<lparr>vnet := Some []\<rparr>)
      = (Inl (RequiredArgumentMissingError
           ''Must specify --vnet if --master-subnet is not an id.''),
         no_arguments\<lparr>vnet := Some []\<rparr>)"
proof -
  let ?c = "example_cmd (example_parts\<lparr>part_subscription := Some ''other''\<rparr>) Returned"
  let ?ns = "no_arguments\<lparr>vnet := Some ''vnet1''\<rparr>"
  let ?empty = "no_arguments\<lparr>vnet := Some []\<rparr>"
  have given: "vnet ?ns = Some ''vnet1'' \<and> ''vnet1'' \<noteq> []"
    by simp
  have fields: "master_subnet ?ns = ''master''" "vnet_resource_group_name ?ns = None"
    "resource_group_name ?ns = Some ''rg''"
    by (simp_all add: no_arguments_def)
  have short_empty: "\<not> is_valid_resource_id (example_cmd example_parts Returned)
                        (getattr_subnet ?empty Master_subnet)"
    and no_vnet: "\<not> truthy (vnet ?empty)"
    by (simp_all add: example_cmd_simps no_arguments_def)
  note with_vnet = validate_subnet_keeps_rewritten_values
      [OF example_short_name(2), where u = plain_unicode, THEN conjunct1, rule_format, OF given]
  note without_vnet = validate_subnet_keeps_rewritten_values
      [OF short_empty, where u = plain_unicode, THEN conjunct2, rule_format, OF no_vnet]
  have a: "master_subnet (snd (validate_subnet plain_unicode Master_subnet ?c ?ns))
       = ''/subscriptions/sub/resourceGroups/rg/providers/Microsoft.Network/virtualNetworks/vnet1/subnets/master''
     \<and> vnet (snd (validate_subnet plain_unicode Master_subnet ?c ?ns))
       = Some ''/subscriptions/sub/resourceGroups/rg/providers/Microsoft.Network/virtualNetworks/vnet1''
     \<and> vnet_resource_group_name (snd (validate_subnet plain_unicode Master_subnet ?c ?ns)) = Some ''rg''"
    using with_vnet [of "example_parts\<lparr>part_subscription := Some ''other''\<rparr>" Returned] fields
    by (auto simp: example_cmd_simps)
  have b: "validate_subnet plain_unicode Master_subnet (example_cmd example_parts Returned) ?empty
      = (Inl (RequiredArgumentMissingError
           ''Must specify --vnet if --master-subnet is not an id.''), ?empty)"
    using without_vnet by (simp add: master_subnet_flag)
  from a b example_wrong_subscription_raises fields(1) show ?thesis
    by blast
qed

text \<open>
  C7: when the validator reaches the remote lookup, a \<^verbatim>\<open>ResourceNotFoundError\<close> of the
  lookup becomes \<^verbatim>\<open>InvalidArgumentValueError\<close>, every other exception becomes
  \<^verbatim>\<open>CLIInternalError\<close> with the original message at the end of its own, and the
  validator returns normally only when the lookup did.
\<close>

theorem subnet_lookup_failures_reported:
  assumes "resolve_subnet key c ns = (Inr subnet, ns')"
    and "check_subnet_parts u key c subnet (parse_resource_id c subnet) = Inr ()"
    and "part_child_name_1 (parse_resource_id c subnet) = Some child_name"
    and "part_name (parse_resource_id c subnet) = Some vnet_name"
    and "part_resource_group (parse_resource_id c subnet) = Some resource_group"
  shows "(subnet_show c child_name vnet_name resource_group = Raised (ResourceNotFoundError msg) \<longrightarrow>
            fst (validate_subnet u key c ns) =
              Inl (InvalidArgumentValueError
                (''Invalid '' @ subnet_flag key @ '', error when getting '' @ quoted subnet
                 @ '': '' @ msg)))
       \<and> (subnet_show c child_name vnet_name resource_group = Raised (OtherException msg) \<longrightarrow>
            fst (validate_subnet u key c ns) =
              Inl (CLIInternalError
                (''Unexpected error when getting subnet '' @ quoted subnet @ '': '' @ msg)))
       \<and> (fst (validate_subnet u key c ns) = Inr () \<longleftrightarrow>
            subnet_show c child_name vnet_name resource_group = Returned)"
proof -
  have look: "lookup_subnet c (parse_resource_id c subnet)
                = subnet_show c child_name vnet_name resource_group"
    using assms(3-5) by (simp add: lookup_subnet_def)
  have res: "fst (validate_subnet u key c ns)
               = report_lookup key subnet (subnet_show c child_name vnet_name resource_group)"
    using assms(1,2) look by (simp add: validate_subnet_def Let_def)
  show ?thesis
  proof (cases "subnet_show c child_name vnet_name resource_group")
    case Returned
    then show ?thesis by (simp add: res)
  next
    case (Raised e)
    then show ?thesis by (cases e) (simp_all add: res)
  qed
qed


lemma example_lower:
  "lower u ''Microsoft.Network'' = ''microsoft.network''"
  "lower u ''virtualNetworks'' = ''virtualnetworks''"
  "lower u ''subnets'' = ''subnets''"
  by (simp_all add: lower_def is_ascii_def) code_simp+

lemma example_resolve:
  "resolve_subnet Master_subnet (example_cmd example_parts answer)
     (no_arguments\<lparr>master_subnet := example_subnet_id\<rparr>)
   = (Inr example_subnet_id, no_arguments\<lparr>master_subnet := example_subnet_id\<rparr>)"
  by (simp add: resolve_subnet_def example_cmd_simps example_subnet_id_def Let_def)

lemma example_check:
  "check_subnet_parts plain_unicode Master_subnet (example_cmd example_parts answer) example_subnet_id
     (parse_resource_id (example_cmd example_parts answer) example_subnet_id) = Inr ()"
  by (simp add: check_subnet_parts_def example_cmd_simps example_parts_def example_lower)

lemma example_keys:
  "part_child_name_1 (parse_resource_id (example_cmd example_parts answer) example_subnet_id)
     = Some ''master''"
  "part_name (parse_resource_id (example_cmd example_parts answer) example_subnet_id)
     = Some ''vnet1''"
  "part_resource_group (parse_resource_id (example_cmd example_parts answer) example_subnet_id)
     = Some ''rg''"
  by (simp_all add: example_cmd_simps example_parts_def)

text \<open>C7 (witness): a lookup that finds nothing, one that times out, one that succeeds.\<close>

theorem subnet_lookup_failures_reported_witness:
  "fst (validate_subnet plain_unicode Master_subnet
          (example_cmd example_parts (Raised (ResourceNotFoundError ''gone'')))
          (no_arguments\<lparr>master_subnet := example_subnet_id\<rparr>))
     = Inl (InvalidArgumentValueError
         (''Invalid --master-subnet, error when getting '' @ quoted example_subnet_id @ '': gone''))
   \<and> fst (validate_subnet plain_unicode Master_subnet
          (example_cmd example_parts (Raised (OtherException ''timeout'')))
          (no_arguments\<lparr>master_subnet := example_subnet_id\<rparr>))
     = Inl (CLIInternalError
         (''Unexpected error when getting subnet '' @ quoted example_subnet_id @ '': timeout''))
   \<and> fst (validate_subnet plain_unicode Master_subnet
          (example_cmd example_parts Returned)
          (no_arguments\<lparr>master_subnet := example_subnet_id\<rparr>)) = Inr ()"
  using subnet_lookup_failures_reported
          [OF example_resolve example_check example_keys,
           of "Raised (ResourceNotFoundError ''gone'')" "''gone''"]
        subnet_lookup_failures_reported
          [OF example_resolve example_check example_keys,
           of "Raised (OtherException ''timeout'')" "''timeout''"]
        subnet_lookup_failures_reported
          [OF example_resolve example_check example_keys, of Returned]
  by (simp add: example_cmd_simps master_subnet_flag)

subsection \<open>Platform workload identities\<close>












lemma is_valid_identity_resource_id_iff:
  "is_valid_identity_resource_id c rid = Inr True \<longleftrightarrow>
     part_namespace (parse_resource_id c rid) = Some ''Microsoft.ManagedIdentity'' \<and>
     part_type (parse_resource_id c rid) = Some ''userAssignedIdentities''"
  "is_valid_identity_resource_id c rid = Inr False \<longleftrightarrow>
     (\<exists>p. part_namespace (parse_resource_id c rid) = Some p \<and> p \<noteq> ''Microsoft.ManagedIdentity'') \<or>
     (part_namespace (parse_resource_id c rid) = Some ''Microsoft.ManagedIdentity'' \<and>
      (\<exists>t. part_type (parse_resource_id c rid) = Some t \<and> t \<noteq> ''userAssignedIdentities''))"
  by (auto simp: is_valid_identity_resource_id_def Let_def split: option.splits)











subsection \<open>Matching, and the domain pattern\<close>

lemma fullmatch_Fail [simp]: "fullmatch Fail w = False"
  by (induction w) simp_all

lemma fullmatch_Empty [simp]: "fullmatch Empty w \<longleftrightarrow> w = []"
  by (cases w) simp_all

lemma fullmatch_Cls [simp]: "fullmatch (Cls rs) w \<longleftrightarrow> (\<exists>c. w = [c] \<and> in_class rs c)"
  by (cases w) auto

lemma fullmatch_Or [simp]: "fullmatch (Or r s) w \<longleftrightarrow> fullmatch r w \<or> fullmatch s w"
  by (induction w arbitrary: r s) simp_all

lemma fullmatch_Cat:
  "fullmatch (Cat r s) w \<longleftrightarrow> (\<exists>u v. w = u @ v \<and> fullmatch r u \<and> fullmatch s v)"
proof (induction w arbitrary: r s)
  case Nil
  then show ?case by simp
next
  case (Cons c w)
  have "(\<exists>u v. c # w = u @ v \<and> fullmatch r u \<and> fullmatch s v) \<longleftrightarrow>
        (nullable r \<and> fullmatch (deriv c s) w) \<or>
        (\<exists>u v. w = u @ v \<and> fullmatch (deriv c r) u \<and> fullmatch s v)"
    (is "?split \<longleftrightarrow> ?empty \<or> ?step")
  proof
    assume ?split
    then obtain u v where uv: "c # w = u @ v" "fullmatch r u" "fullmatch s v"
      by blast
    show "?empty \<or> ?step"
    proof (cases u)
      case Nil
      with uv show ?thesis by auto
    next
      case (Cons a u')
      with uv have "w = u' @ v" "fullmatch (deriv c r) u'" by auto
      with uv(3) show ?thesis by blast
    qed
  next
    assume "?empty \<or> ?step"
    then show ?split
    proof
      assume ?empty
      then have "c # w = [] @ (c # w)" "fullmatch r []" "fullmatch s (c # w)" by auto
      then show ?split by blast
    next
      assume ?step
      then obtain u v where "w = u @ v" "fullmatch (deriv c r) u" "fullmatch s v"
        by blast
      then have "c # w = (c # u) @ v" "fullmatch r (c # u)" "fullmatch s v" by auto
      then show ?split by blast
    qed
  qed
  then show ?case
    using Cons.IH by auto
qed

lemma fullmatch_Many:
  "fullmatch (Many r) w \<longleftrightarrow>
     w = [] \<or> (\<exists>u v. w = u @ v \<and> u \<noteq> [] \<and> fullmatch r u \<and> fullmatch (Many r) v)"
proof (cases w)
  case Nil
  then show ?thesis by simp
next
  case (Cons c w')
  have "(\<exists>u v. c # w' = u @ v \<and> u \<noteq> [] \<and> fullmatch r u \<and> fullmatch (Many r) v) \<longleftrightarrow>
        (\<exists>u v. w' = u @ v \<and> fullmatch (deriv c r) u \<and> fullmatch (Many r) v)"
    (is "?split \<longleftrightarrow> ?step")
  proof
    assume ?split
    then obtain u v where uv: "c # w' = u @ v" "u \<noteq> []" "fullmatch r u" "fullmatch (Many r) v"
      by blast
    then obtain u' where "u = c # u'" by (cases u) auto
    with uv have "w' = u' @ v" "fullmatch (deriv c r) u'" by auto
    with uv(4) show ?step by blast
  next
    assume ?step
    then obtain u v where "w' = u @ v" "fullmatch (deriv c r) u" "fullmatch (Many r) v"
      by blast
    then have "c # w' = (c # u) @ v" "c # u \<noteq> []" "fullmatch r (c # u)" "fullmatch (Many r) v"
      by auto
    then show ?split by blast
  qed
  then show ?thesis
    using Cons by (simp add: fullmatch_Cat)
qed

lemma fullmatch_upto_times_Cls:
  "fullmatch (upto_times (Cls rs) n) w \<longleftrightarrow> length w \<le> n \<and> list_all (in_class rs) w"
proof (induction n arbitrary: w)
  case 0
  then show ?case by auto
next
  case (Suc n)
  show ?case
  proof (cases w)
    case Nil
    then show ?thesis by simp
  next
    case (Cons c w')
    then show ?thesis
      using Suc.IH [of w'] by (auto simp: fullmatch_Cat Cons_eq_append_conv)
  qed
qed


lemma in_class_alnum: "in_class [(CHR ''a'', CHR ''z''), (CHR ''0'', CHR ''9'')] c = lower_alnum c"
  by (simp add: in_class_def lower_alnum_def)

lemma in_class_hyphen_alnum:
  "in_class [(CHR ''-'', CHR ''-''), (CHR ''a'', CHR ''z''), (CHR ''0'', CHR ''9'')] c
     = (lower_alnum c \<or> c = CHR ''-'')"
proof -
  have "in_range CHR ''-'' CHR ''-'' c \<longleftrightarrow> c = CHR ''-''"
    unfolding in_range_def by (metis antisym of_char_eq_iff order_refl)
  then show ?thesis
    by (auto simp: in_class_def lower_alnum_def)
qed

lemma in_class_hyphen_alnum_fun:
  "in_class [(CHR ''-'', CHR ''-''), (CHR ''a'', CHR ''z''), (CHR ''0'', CHR ''9'')]
     = (\<lambda>c. lower_alnum c \<or> c = CHR ''-'')"
  by (rule ext) (rule in_class_hyphen_alnum)

lemma in_class_dot: "in_class [(CHR ''.'', CHR ''.'')] c \<longleftrightarrow> c = CHR ''.''"
proof -
  have "in_range CHR ''.'' CHR ''.'' c \<longleftrightarrow> c = CHR ''.''"
    unfolding in_range_def by (metis antisym of_char_eq_iff order_refl)
  then show ?thesis
    by (simp add: in_class_def)
qed

lemma lower_alnum_not_special:
  "lower_alnum c \<Longrightarrow> c \<noteq> CHR ''.'' \<and> c \<noteq> CHR ''-'' \<and> c \<noteq> newline"
  by (auto simp: lower_alnum_def in_range_def newline_def)

lemma fullmatch_label_rx: "fullmatch label_rx l \<longleftrightarrow> is_label lower_alnum l"
proof
  assume "fullmatch label_rx l"
  then consider c where "l = [c]" "lower_alnum c"
    | a m b where "l = [a] @ m @ [b]" "lower_alnum a" "lower_alnum b" "length m \<le> 61"
        "list_all (\<lambda>c. lower_alnum c \<or> c = CHR ''-'') m"
    unfolding label_rx_def alnum_def hyphen_alnum_def rep_def
    by (auto simp: fullmatch_Cat fullmatch_upto_times_Cls in_class_alnum in_class_hyphen_alnum_fun)
  then show "is_label lower_alnum l"
    by cases (auto simp: is_label_def)
next
  assume ok: "is_label lower_alnum l"
  then have ne: "l \<noteq> []" by (auto simp: is_label_def)
  show "fullmatch label_rx l"
  proof (cases "length l = 1")
    case True
    then obtain c where "l = [c]" by (cases l) auto
    with ok show ?thesis
      by (simp add: label_rx_def alnum_def in_class_alnum is_label_def)
  next
    case False
    with ne have long: "2 \<le> length l"
      by (cases l) (auto simp: Suc_le_eq)
    define m where "m = butlast (tl l)"
    obtain a t where l: "l = a # t" "t \<noteq> []"
      using long by (cases l) fastforce+
    have shape: "l = [hd l] @ m @ [last l]"
      using l unfolding m_def by simp
    have "length l \<le> 63"
      using ok by (simp add: is_label_def)
    then have "length m \<le> 61"
      unfolding m_def by simp
    moreover have "list_all (\<lambda>c. lower_alnum c \<or> c = CHR ''-'') m"
      using ok shape by (metis is_label_def list_all_append)
    moreover have "lower_alnum (hd l)" "lower_alnum (last l)"
      using ok by (simp_all add: is_label_def)
    ultimately have "fullmatch (Cat alnum (Cat (rep hyphen_alnum 0 61) alnum)) ([hd l] @ m @ [last l])"
      unfolding alnum_def hyphen_alnum_def rep_def
      by (simp add: fullmatch_Cat fullmatch_upto_times_Cls in_class_alnum in_class_hyphen_alnum_fun)
         (metis append_Cons append_Nil)
    with shape show ?thesis
      by (simp add: label_rx_def)
  qed
qed


lemma fullmatch_dot_label:
  "fullmatch (Cat dot label_rx) u \<longleftrightarrow> (\<exists>l. u = CHR ''.'' # l \<and> is_label lower_alnum l)"
  by (auto simp: fullmatch_Cat dot_def in_class_dot fullmatch_label_rx)

lemma fullmatch_more_labels_only_if:
  "fullmatch (Many (Cat dot label_rx)) v \<Longrightarrow>
     \<exists>ls. list_all (is_label lower_alnum) ls \<and> v = concat (map ((#) CHR ''.'') ls)"
proof (induction "length v" arbitrary: v rule: less_induct)
  case less
  show ?case
  proof (cases "v = []")
    case True
    then have "list_all (is_label lower_alnum) [] \<and> v = concat (map ((#) CHR ''.'') [])"
      by simp
    then show ?thesis by blast
  next
    case False
    with less.prems obtain u v' where split: "v = u @ v'" "u \<noteq> []"
      and first: "fullmatch (Cat dot label_rx) u" and rest: "fullmatch (Many (Cat dot label_rx)) v'"
      using fullmatch_Many [of "Cat dot label_rx" v] by blast
    from first obtain l where l: "u = CHR ''.'' # l" "is_label lower_alnum l"
      by (auto simp: fullmatch_dot_label)
    have "length v' < length v"
      using split by simp
    from less.hyps [OF this rest] obtain ls
      where ls: "list_all (is_label lower_alnum) ls" "v' = concat (map ((#) CHR ''.'') ls)"
      by blast
    have "list_all (is_label lower_alnum) (l # ls) \<and> v = concat (map ((#) CHR ''.'') (l # ls))"
      using split l ls by simp
    then show ?thesis by blast
  qed
qed

lemma fullmatch_more_labels_if:
  "list_all (is_label lower_alnum) ls \<Longrightarrow>
     fullmatch (Many (Cat dot label_rx)) (concat (map ((#) CHR ''.'') ls))"
proof (induction ls)
  case Nil
  then show ?case by simp
next
  case (Cons l ls)
  from Cons.prems have lab: "is_label lower_alnum l"
    and rest: "list_all (is_label lower_alnum) ls"
    by simp_all
  have "fullmatch (Cat dot label_rx) (CHR ''.'' # l)"
    using lab fullmatch_dot_label by blast
  moreover have "fullmatch (Many (Cat dot label_rx)) (concat (map ((#) CHR ''.'') ls))"
    using Cons.IH rest by blast
  moreover have "CHR ''.'' # l \<noteq> []"
    by simp
  moreover have "concat (map ((#) CHR ''.'') (l # ls))
                   = (CHR ''.'' # l) @ concat (map ((#) CHR ''.'') ls)"
    by simp
  ultimately show ?case
    using fullmatch_Many [of "Cat dot label_rx" "concat (map ((#) CHR ''.'') (l # ls))"]
    by blast
qed

lemma label_no_dot: "is_label lower_alnum l \<Longrightarrow> CHR ''.'' \<notin> set l"
  by (auto simp: is_label_def list_all_iff dest: lower_alnum_not_special)

lemma split_dots_no_dot: "CHR ''.'' \<notin> set l \<Longrightarrow> split_dots l = [l]"
  by (induction l) auto

lemma split_dots_append:
  "CHR ''.'' \<notin> set l \<Longrightarrow> split_dots (l @ CHR ''.'' # rest) = l # split_dots rest"
  by (induction l) auto

lemma split_dots_join:
  "CHR ''.'' \<notin> set l \<Longrightarrow> \<forall>x \<in> set ls. CHR ''.'' \<notin> set x \<Longrightarrow>
     split_dots (l @ concat (map ((#) CHR ''.'') ls)) = l # ls"
proof (induction ls arbitrary: l)
  case Nil
  then show ?case by (simp add: split_dots_no_dot)
next
  case (Cons x ls)
  then show ?case by (simp add: split_dots_append)
qed

lemma join_split_dots:
  "\<exists>l ls. split_dots d = l # ls \<and> d = l @ concat (map ((#) CHR ''.'') ls)"
proof (induction d)
  case Nil
  then show ?case by simp
next
  case (Cons c d)
  then obtain l ls where "split_dots d = l # ls" "d = l @ concat (map ((#) CHR ''.'') ls)"
    by blast
  then show ?case by (cases "c = CHR ''.''") auto
qed

lemma fullmatch_domain_rx: "fullmatch domain_rx d \<longleftrightarrow> is_domain lower_alnum d"
proof
  assume "fullmatch domain_rx d"
  then obtain l v where "d = l @ v" "is_label lower_alnum l"
    "fullmatch (Many (Cat dot label_rx)) v"
    by (auto simp: domain_rx_def fullmatch_Cat fullmatch_label_rx)
  moreover then obtain ls where "list_all (is_label lower_alnum) ls"
    "v = concat (map ((#) CHR ''.'') ls)"
    using fullmatch_more_labels_only_if by blast
  ultimately have "split_dots d = l # ls" "list_all (is_label lower_alnum) (l # ls)"
    by (simp_all add: split_dots_join label_no_dot list_all_iff)
  then show "is_domain lower_alnum d"
    by (simp add: is_domain_def)
next
  assume ok: "is_domain lower_alnum d"
  obtain l ls where parts: "split_dots d = l # ls" "d = l @ concat (map ((#) CHR ''.'') ls)"
    using join_split_dots by blast
  with ok have "is_label lower_alnum l" "list_all (is_label lower_alnum) ls"
    by (simp_all add: is_domain_def)
  then have "fullmatch label_rx l" "fullmatch (Many (Cat dot label_rx)) (concat (map ((#) CHR ''.'') ls))"
    by (simp_all add: fullmatch_label_rx fullmatch_more_labels_if)
  then show "fullmatch domain_rx d"
    unfolding domain_rx_def using parts(2) by (auto simp: fullmatch_Cat)
qed


lemma re_match_domain_rx:
  assumes "d = [] \<or> last d \<noteq> newline"
  shows "re_match_anchored domain_rx d \<longleftrightarrow> is_domain lower_alnum d"
  using assms by (auto simp: re_match_anchored_def fullmatch_domain_rx)

lemma example_domains:
  "is_domain any_alnum ''Example.com''"
  "\<not> is_domain any_alnum (''example.com'' @ [newline])"
  "is_domain lower_alnum ''my-cluster.example-01.com''"
  "\<not> is_domain lower_alnum ''-bad.example.com''"
  by code_simp+

lemma example_domain_results:
  "validate_domain (no_arguments\<lparr>domain := Some ''Example.com''\<rparr>)
     = Inl (InvalidArgumentValueError (''Invalid --domain '' @ quoted ''Example.com'' @ ''.''))"
  "validate_domain (no_arguments\<lparr>domain := Some (''example.com'' @ [newline])\<rparr>) = Inr ()"
  by code_simp+

text \<open>
  C4 (counterexample): \<^verbatim>\<open>Example.com\<close> is a dot-separated sequence of labels of
  alphanumeric characters and is rejected, since the pattern has lowercase letters only;
  and \<^verbatim>\<open>example.com\<close> followed by a newline is no such sequence and is accepted, since
  \<^verbatim>\<open>$\<close> matches before a final newline.
\<close>

theorem validate_domain_uppercase_rejected:
  "is_domain any_alnum ''Example.com'' \<and>
   validate_domain (no_arguments\<lparr>domain := Some ''Example.com''\<rparr>)
     = Inl (InvalidArgumentValueError (''Invalid --domain '' @ quoted ''Example.com'' @ ''.''))
   \<and> \<not> is_domain any_alnum (''example.com'' @ [newline]) \<and>
   validate_domain (no_arguments\<lparr>domain := Some (''example.com'' @ [newline])\<rparr>) = Inr ()"
  by (simp only: example_domains example_domain_results simp_thms)

text \<open>
  C4 (amended): a present domain that does not end in a newline passes exactly when it is
  a dot-separated sequence of labels, each of 1 to 63 characters that are lowercase
  letters, digits or hyphens, the first and the last of them not a hyphen; every other such
  string raises \<^verbatim>\<open>InvalidArgumentValueError\<close> with the message
  \<^verbatim>\<open>Invalid --domain '<value>'.\<close>
\<close>

theorem validate_domain_spec:
  assumes "domain ns = Some d" and "d = [] \<or> last d \<noteq> newline"
  shows "(validate_domain ns = Inr () \<longleftrightarrow> is_domain lower_alnum d) \<and>
         (\<not> is_domain lower_alnum d \<longrightarrow>
            validate_domain ns
              = Inl (InvalidArgumentValueError (''Invalid --domain '' @ quoted d @ ''.'')))"
  using assms(1) re_match_domain_rx [OF assms(2)]
  by (simp add: validate_domain_def)

text \<open>C4 (witness): a domain that passes and one whose first label starts with a hyphen.\<close>

theorem validate_domain_spec_witness:
  "validate_domain (no_arguments\<lparr>domain := Some ''my-cluster.example-01.com''\<rparr>) = Inr ()
   \<and> validate_domain (no_arguments\<lparr>domain := Some ''-bad.example.com''\<rparr>)
       = Inl (InvalidArgumentValueError (''Invalid --domain '' @ quoted ''-bad.example.com'' @ ''.''))"
proof -
  have no_newline:
    "''my-cluster.example-01.com'' = [] \<or> last ''my-cluster.example-01.com'' \<noteq> newline"
    "''-bad.example.com'' = [] \<or> last ''-bad.example.com'' \<noteq> newline"
    by (simp_all add: newline_def)
  have given: "domain (no_arguments\<lparr>domain := Some x\<rparr>) = Some x" for x
    by simp
  show ?thesis
    using validate_domain_spec [OF given no_newline(1)]
          validate_domain_spec [OF given no_newline(2)]
          example_domains(3,4)
    by simp
qed

subsection \<open>What the upgrade target pattern accepts\<close>

text \<open>
  The pattern accepts a major digit from 4 to 9, a dot, a two-digit minor whose first
  digit is not 0, a dot and a patch of one or two digits: the minor ranges over 10 to 99.
\<close>

lemma in_class_single: "in_class [(lo, hi)] c = in_range lo hi c"
  by (simp add: in_class_def)

lemma in_class_single_fun: "in_class [(lo, hi)] = in_range lo hi"
  by (rule ext) (rule in_class_single)

lemma minor_alternatives:
  "(in_range CHR ''1'' CHR ''1'' b \<and> in_range CHR ''4'' CHR ''9'' c) \<or>
   (in_range CHR ''1'' CHR ''9'' b \<and> in_range CHR ''0'' CHR ''9'' c)
   \<longleftrightarrow> in_range CHR ''1'' CHR ''9'' b \<and> in_range CHR ''0'' CHR ''9'' c"
  by (auto simp: in_range_def)

lemma fullmatch_Cls_Cat:
  "fullmatch (Cat (Cls rs) r) w \<longleftrightarrow> (\<exists>c w'. w = c # w' \<and> in_class rs c \<and> fullmatch r w')"
  by (cases w) (auto simp: fullmatch_Cat)

lemma fullmatch_upgradeable_to_rx:
  "fullmatch upgradeable_to_rx s \<longleftrightarrow>
     (\<exists>major m1 m2 patch.
        s = [major] @ ''.'' @ [m1, m2] @ ''.'' @ patch \<and>
        in_range CHR ''4'' CHR ''9'' major \<and>
        in_range CHR ''1'' CHR ''9'' m1 \<and> in_range CHR ''0'' CHR ''9'' m2 \<and>
        1 \<le> length patch \<and> length patch \<le> 2 \<and> list_all (in_range CHR ''0'' CHR ''9'') patch)"
proof -
  have minor: "fullmatch (Cat (Or (Cat (Cls [(CHR ''1'', CHR ''1'')]) digit_4_9) (Cat digit_1_9 digit_0_9)) r) w
     \<longleftrightarrow> (\<exists>m1 m2 w'. w = m1 # m2 # w' \<and> in_range CHR ''1'' CHR ''9'' m1 \<and>
            in_range CHR ''0'' CHR ''9'' m2 \<and> fullmatch r w')"
    for w r
  proof -
    let ?minor = "Or (Cat (Cls [(CHR ''1'', CHR ''1'')]) digit_4_9) (Cat digit_1_9 digit_0_9)"
    have inner: "fullmatch ?minor u
      \<longleftrightarrow> (\<exists>m1 m2. u = [m1, m2] \<and> in_range CHR ''1'' CHR ''9'' m1 \<and> in_range CHR ''0'' CHR ''9'' m2)"
      for u
      unfolding digit_4_9_def digit_1_9_def digit_0_9_def
      using minor_alternatives
      by (simp add: fullmatch_Cls_Cat in_class_single) blast
    show ?thesis
    proof
      assume "fullmatch (Cat ?minor r) w"
      then obtain u v where "w = u @ v" "fullmatch ?minor u" "fullmatch r v"
        using fullmatch_Cat [of ?minor r w] by blast
      moreover then obtain m1 m2 where "u = [m1, m2]" "in_range CHR ''1'' CHR ''9'' m1"
        "in_range CHR ''0'' CHR ''9'' m2"
        using inner [of u] by blast
      ultimately have "w = m1 # m2 # v \<and> in_range CHR ''1'' CHR ''9'' m1 \<and>
            in_range CHR ''0'' CHR ''9'' m2 \<and> fullmatch r v"
        by simp
      then show "\<exists>m1 m2 w'. w = m1 # m2 # w' \<and> in_range CHR ''1'' CHR ''9'' m1 \<and>
            in_range CHR ''0'' CHR ''9'' m2 \<and> fullmatch r w'"
        by blast
    next
      assume "\<exists>m1 m2 w'. w = m1 # m2 # w' \<and> in_range CHR ''1'' CHR ''9'' m1 \<and>
            in_range CHR ''0'' CHR ''9'' m2 \<and> fullmatch r w'"
      then obtain m1 m2 w' where parts: "w = m1 # m2 # w'" "in_range CHR ''1'' CHR ''9'' m1"
        "in_range CHR ''0'' CHR ''9'' m2" "fullmatch r w'"
        by blast
      then have "fullmatch ?minor [m1, m2]"
        using inner [of "[m1, m2]"] by blast
      moreover have "w = [m1, m2] @ w'"
        using parts(1) by simp
      ultimately show "fullmatch (Cat ?minor r) w"
        using parts(4) fullmatch_Cat [of ?minor r w] by blast
    qed
  qed
  have one_or_two: "rep r 1 2 = Cat r (upto_times r 1)" for r
    by (simp add: rep_def)
  have once: "rep r 1 1 = Cat r Empty" for r
    by (simp add: rep_def)
  have patch: "fullmatch (rep digit_0_9 1 2) w
     \<longleftrightarrow> 1 \<le> length w \<and> length w \<le> 2 \<and> list_all (in_range CHR ''0'' CHR ''9'') w" for w
    unfolding digit_0_9_def one_or_two fullmatch_Cls_Cat fullmatch_upto_times_Cls in_class_single
      in_class_single_fun
    by (cases w) auto
  have major: "fullmatch (Cat (rep digit_4_9 1 1) r) w \<longleftrightarrow>
      (\<exists>a w'. w = a # w' \<and> in_range CHR ''4'' CHR ''9'' a \<and> fullmatch r w')" for w r
  proof -
    have "fullmatch (Cat (rep digit_4_9 1 1) r) w \<longleftrightarrow>
            (\<exists>u v. w = u @ v \<and> (\<exists>a. u = [a] \<and> in_range CHR ''4'' CHR ''9'' a) \<and> fullmatch r v)"
      unfolding digit_4_9_def once
      by (simp add: fullmatch_Cat [of _ r] fullmatch_Cls_Cat in_class_single)
    also have "\<dots> \<longleftrightarrow> (\<exists>a w'. w = a # w' \<and> in_range CHR ''4'' CHR ''9'' a \<and> fullmatch r w')"
      by (metis append_Cons append_Nil)
    finally show ?thesis .
  qed
  have d: "fullmatch (Cat dot r) w \<longleftrightarrow> (\<exists>w'. w = CHR ''.'' # w' \<and> fullmatch r w')" for w r
    by (auto simp: dot_def fullmatch_Cls_Cat in_class_dot)
  show ?thesis
    unfolding upgradeable_to_rx_def major d minor patch
    by auto
qed

end
